theory Spec2Isabelle
  imports Main "HOL-Library.Sublist"
begin

section \<open>dewan\_utils.async\_io: the AsyncIO writer\<close>

text \<open>
  The module \<^verbatim>\<open>dewan_utils/async_io/async_io.py\<close> defines one class,
  \<^verbatim>\<open>AsyncIO(ThreadPoolExecutor)\<close>, with the methods \<^verbatim>\<open>__init__\<close>,
  \<^verbatim>\<open>setup_logger\<close>, \<^verbatim>\<open>queue_save_df\<close> and \<^verbatim>\<open>_save_df\<close>.
  Each method is embedded as a function that takes the object and the part of the process
  state it touches and returns the method's outcome together with the updated state.
  A raised exception is the \<open>Inl\<close> branch of the outcome, a returned value the
  \<open>Inr\<close> branch.
\<close>

subsection \<open>Python values and exceptions\<close>

type_synonym path = string

datatype exc =
    OSError | ValueError | RuntimeError | AttributeError
  | KeyboardInterrupt | SystemExit | GeneratorExit

text \<open>\<^verbatim>\<open>isinstance(e, Exception)\<close>: the last three classes derive from
  \<^verbatim>\<open>BaseException\<close> only.\<close>

fun is_Exception :: "exc \<Rightarrow> bool" where
  "is_Exception KeyboardInterrupt = False"
| "is_Exception SystemExit = False"
| "is_Exception GeneratorExit = False"
| "is_Exception _ = True"

text \<open>The values a method of the class can hand back: \<^verbatim>\<open>None\<close>, or the
  \<^verbatim>\<open>Future\<close> of a submitted work item (numbered by its position in the queue).\<close>

datatype pyval = PyNone | Future nat

type_synonym 'a outcome = "exc + 'a"

subsection \<open>The environment: file system and logging\<close>

text \<open>
  The functions of this subsection belong to the operating system and to Python's standard
  library (\<^verbatim>\<open>logging\<close>, \<^verbatim>\<open>concurrent.futures\<close>), not to the module. They follow the
  library's documentation, as far as the module's four methods use them.
\<close>

text \<open>A cell of a table or of a sheet: a number, a text, or a value of a type the
  spreadsheet format cannot represent.\<close>

datatype cell = Num int | Txt string | Opaque

type_synonym sheet = "cell list list"

text \<open>
  The file system as far as the module touches it: the directories that exist, the paths
  that cannot be opened for writing, the files that exist, and for a spreadsheet file the
  sheets it holds.
\<close>

record filesys =
  dirs :: "path set"
  locked :: "path set"
  files :: "path set"
  workbooks :: "path \<rightharpoonup> sheet list"

text \<open>The directory part of a path: everything before the last \<open>/\<close>.\<close>

definition dirname :: "path \<Rightarrow> path" where
  "dirname p = rev (drop 1 (dropWhile (\<lambda>c. c \<noteq> CHR ''/'') (rev p)))"

text \<open>An empty directory part stands for the working directory (or the root), which exists.\<close>

definition parent_exists :: "filesys \<Rightarrow> path \<Rightarrow> bool" where
  "parent_exists fsys p = (dirname p = [] \<or> dirname p \<in> dirs fsys)"

definition can_open :: "filesys \<Rightarrow> path \<Rightarrow> bool" where
  "can_open fsys p =
     (p \<noteq> [] \<and> parent_exists fsys p \<and> p \<notin> dirs fsys \<and> p \<notin> locked fsys)"

text \<open>The logging levels of the standard library.\<close>

datatype loglevel = NOTSET | DEBUG | INFO | WARNING | ERROR | CRITICAL

datatype handler = FileHandler path | StreamHandler

datatype logger_ref = RootLogger | NamedLogger string

record logger_obj =
  level :: loglevel
  handlers :: "handler list"

text \<open>An emitted log entry: the record a logger creates for an enabled call and hands to
  the handlers: which logger, at which level, the message template and its argument.\<close>

record log_entry =
  le_logger :: logger_ref
  le_level :: loglevel
  le_template :: string
  le_arg :: path

text \<open>
  The process state: the file system, the number of CPUs the operating system reports,
  the logger objects (a logger that was never configured has level \<open>NOTSET\<close> and no
  handlers; the root logger starts at \<open>WARNING\<close>), the loggers whose \<^verbatim>\<open>disabled\<close>
  attribute is set, the level given to \<^verbatim>\<open>logging.disable\<close> (0 when it was never called),
  and the log entries emitted so far.
\<close>

record world =
  fs :: filesys
  cpu_count :: "nat option"
  loggers :: "logger_ref \<Rightarrow> logger_obj"
  disabled :: "logger_ref set"
  manager_disable :: nat
  emitted :: "log_entry list"

text \<open>The numeric values of the levels.\<close>

fun level_no :: "loglevel \<Rightarrow> nat" where
  "level_no NOTSET = 0"
| "level_no DEBUG = 10"
| "level_no INFO = 20"
| "level_no WARNING = 30"
| "level_no ERROR = 40"
| "level_no CRITICAL = 50"

text \<open>The names of the ancestors of a logger name, nearest first: \<open>a.b.c\<close> has the
  ancestors \<open>a.b\<close> and \<open>a\<close>.\<close>

definition parent_names :: "string \<Rightarrow> string list" where
  "parent_names n =
     map (\<lambda>i. take i n) (filter (\<lambda>i. n ! i = CHR ''.'') (rev [0..<length n]))"

text \<open>A logger, its ancestors by name, and the root logger last.\<close>

fun lineage :: "logger_ref \<Rightarrow> logger_ref list" where
  "lineage RootLogger = [RootLogger]"
| "lineage (NamedLogger n) = NamedLogger n # map NamedLogger (parent_names n) @ [RootLogger]"

text \<open>\<^verbatim>\<open>Logger.getEffectiveLevel()\<close>: the first level other than \<open>NOTSET\<close> on the way from
  the logger up to the root logger, and \<open>NOTSET\<close> when there is none. (An ancestor that
  was never created has level \<open>NOTSET\<close> here, so passing through it changes nothing.)\<close>

definition getEffectiveLevel :: "world \<Rightarrow> logger_ref \<Rightarrow> loglevel" where
  "getEffectiveLevel w l =
     (case filter (\<lambda>lv. lv \<noteq> NOTSET) (map (\<lambda>a. level (loggers w a)) (lineage l)) of
        [] \<Rightarrow> NOTSET
      | lv # rest \<Rightarrow> lv)"

text \<open>\<^verbatim>\<open>Logger.isEnabledFor(level)\<close>: false for a disabled logger and for a level that
  \<^verbatim>\<open>logging.disable\<close> covers; otherwise the level must reach the effective level.\<close>

definition isEnabledFor :: "world \<Rightarrow> logger_ref \<Rightarrow> loglevel \<Rightarrow> bool" where
  "isEnabledFor w l lv =
     (l \<notin> disabled w \<and> \<not> level_no lv \<le> manager_disable w
      \<and> level_no (getEffectiveLevel w l) \<le> level_no lv)"

text \<open>\<^verbatim>\<open>logging.getLogger(name)\<close> hands back the logger registered under the name.\<close>

definition getLogger :: "string \<Rightarrow> logger_ref" where
  "getLogger name = NamedLogger name"

text \<open>\<^verbatim>\<open>__name__\<close> of the module.\<close>

definition dunder_name :: string where
  "dunder_name = ''dewan_utils.async_io.async_io''"

text \<open>\<^verbatim>\<open>logging.FileHandler(filename)\<close> opens the file for appending at once: it raises
  \<^verbatim>\<open>OSError\<close> when the file cannot be opened, and creates the file otherwise.\<close>

definition new_FileHandler :: "path \<Rightarrow> filesys \<Rightarrow> handler outcome \<times> filesys" where
  "new_FileHandler p fsys =
     (if can_open fsys p then (Inr (FileHandler p), fsys\<lparr>files := insert p (files fsys)\<rparr>)
      else (Inl OSError, fsys))"

text \<open>\<^verbatim>\<open>Logger.addHandler(h)\<close> appends the handler (a new handler object is never
  already in the list).\<close>

definition addHandler :: "logger_ref \<Rightarrow> handler \<Rightarrow> world \<Rightarrow> world" where
  "addHandler l h w =
     w\<lparr>loggers := (loggers w)(l := (loggers w l)\<lparr>handlers := handlers (loggers w l) @ [h]\<rparr>)\<rparr>"

text \<open>\<^verbatim>\<open>logging.basicConfig(level=lv)\<close> configures the root logger only when it has no
  handlers: then it installs a stream handler and sets the level. Otherwise it does nothing.\<close>

definition basicConfig :: "loglevel \<Rightarrow> world \<Rightarrow> world" where
  "basicConfig lv w =
     (if handlers (loggers w RootLogger) = []
      then w\<lparr>loggers := (loggers w)(RootLogger := \<lparr>level = lv, handlers = [StreamHandler]\<rparr>)\<rparr>
      else w)"

subsection \<open>Datasets\<close>

text \<open>
  \<^verbatim>\<open>_save_df\<close> calls \<^verbatim>\<open>df_to_save.to_excel(file_path)\<close>: the method of the object it was
  given. A dataset is therefore the object with that method, which either returns or raises
  and leaves a file system behind.
\<close>

datatype dataframe = DataFrame (to_excel: "path \<Rightarrow> filesys \<Rightarrow> pyval outcome \<times> filesys")

text \<open>
  Modelled from the spec: the dataset type of \<^verbatim>\<open>pandas\<close> is not part of the repository.
  The spec's words: "an in-memory table (rows x named columns, heterogeneous column
  types)".
\<close>

record table =
  columns :: "string list"
  rows :: "cell list list"

definition shape :: "table \<Rightarrow> nat \<times> nat" where
  "shape t = (length (rows t), length (columns t))"

text \<open>Every row has one cell for each column.\<close>

definition well_formed :: "table \<Rightarrow> bool" where
  "well_formed t = list_all (\<lambda>r. length r = length (columns t)) (rows t)"

text \<open>No cell is of a type the spreadsheet format cannot represent.\<close>

definition representable :: "table \<Rightarrow> bool" where
  "representable t = list_all (\<lambda>r. Opaque \<notin> set r) (rows t)"

text \<open>
  Modelled from the spec: the default layout of the sheet is not part of the repository.
  The spec's words: "one sheet, containing the dataset's rows/columns rendered in the target
  format's default layout (including a default index column unless configured otherwise)".
  The first row holds the column names after an empty corner cell; every further row holds
  the row's number, counted from 0, and then the row's cells.
\<close>

definition render_sheet :: "table \<Rightarrow> sheet" where
  "render_sheet t =
     (Txt [] # map Txt (columns t)) #
     map (\<lambda>(i, r). Num (int i) # r) (enumerate 0 (rows t))"

text \<open>
  Modelled from the spec: the reader of spreadsheet files is not part of the repository.
  The spec's words: "a spreadsheet readable back with the same row/column shape as the
  input dataset". It takes the column names from the first row and the index from the first
  column.
\<close>

fun cell_text :: "cell \<Rightarrow> string" where
  "cell_text (Txt s) = s"
| "cell_text _ = []"

definition read_excel :: "sheet \<Rightarrow> table" where
  "read_excel sh =
     (case sh of
        [] \<Rightarrow> \<lparr>columns = [], rows = []\<rparr>
      | header # body \<Rightarrow> \<lparr>columns = map cell_text (tl header), rows = map tl body\<rparr>)"

text \<open>
  Modelled from the spec: \<^verbatim>\<open>pandas.DataFrame.to_excel\<close> is not part of the repository.
  The spec's words: "serialize the dataset to a spreadsheet file at destination\_path
  (overwrite if exists; fails if parent directory missing or path unwritable, or if dataset
  contains types the spreadsheet format cannot represent)". A failing write leaves the file
  system as it was.
\<close>

definition pandas_to_excel :: "table \<Rightarrow> path \<Rightarrow> filesys \<Rightarrow> pyval outcome \<times> filesys" where
  "pandas_to_excel t p fsys =
     (if \<not> parent_exists fsys p then (Inl OSError, fsys)
      else if \<not> can_open fsys p then (Inl OSError, fsys)
      else if \<not> representable t then (Inl ValueError, fsys)
      else (Inr PyNone,
            fsys\<lparr>files := insert p (files fsys),
                 workbooks := (workbooks fsys)(p \<mapsto> [render_sheet t])\<rparr>))"

definition pandas_DataFrame :: "table \<Rightarrow> dataframe" where
  "pandas_DataFrame t = DataFrame (pandas_to_excel t)"

subsection \<open>The class\<close>

text \<open>A work item of the pool: the bound method \<^verbatim>\<open>self._save_df\<close> with its arguments.\<close>

datatype task = Save_df dataframe path

text \<open>
  The \<^verbatim>\<open>logger\<close> attribute: absent before line 42, then the expression
  \<^verbatim>\<open>Union[None, logging.Logger]\<close> of the \<^verbatim>\<open>typing\<close> module, then a logger.
\<close>

datatype logger_field = Unset | UnionNoneLogger | LoggerObj logger_ref

text \<open>The state of the base class \<^verbatim>\<open>ThreadPoolExecutor\<close>, extended by the subclass.\<close>

record ThreadPoolExecutor =
  max_workers :: nat
  shutdown_flag :: bool
  work_queue :: "task list"

record AsyncIO = ThreadPoolExecutor +
  logger :: logger_field

text \<open>Arguments of a call: extra positional ones and keyword ones.\<close>

datatype pyarg = IntArg int | StrArg string | NoneArg

text \<open>
  \<^verbatim>\<open>ThreadPoolExecutor.__init__(max_workers=None)\<close>, as far as the size of the pool goes
  (Python 3.8 and later): the default size is \<^verbatim>\<open>min(32, (os.cpu_count() or 1) + 4)\<close>; a
  size below 1 raises \<^verbatim>\<open>ValueError\<close>.
\<close>

definition ThreadPoolExecutor_init :: "int option \<Rightarrow> world \<Rightarrow> ThreadPoolExecutor outcome" where
  "ThreadPoolExecutor_init mw w =
     (case mw of
        None \<Rightarrow>
          Inr \<lparr>max_workers = min 32 ((case cpu_count w of None \<Rightarrow> 1 | Some n \<Rightarrow> n) + 4),
               shutdown_flag = False, work_queue = []\<rparr>
      | Some n \<Rightarrow>
          if n \<le> 0 then Inl ValueError
          else Inr \<lparr>max_workers = nat n, shutdown_flag = False, work_queue = []\<rparr>)"

text \<open>\<^verbatim>\<open>Executor.submit(fn, *args)\<close>: refuses after shutdown, otherwise queues the work item
  and returns its future.\<close>

definition submit :: "AsyncIO \<Rightarrow> task \<Rightarrow> pyval outcome \<times> AsyncIO" where
  "submit self t =
     (if shutdown_flag self then (Inl RuntimeError, self)
      else (Inr (Future (length (work_queue self))),
            self\<lparr>work_queue := work_queue self @ [t]\<rparr>))"

text \<open>\<^verbatim>\<open>if logfile:\<close> (line 66): \<^verbatim>\<open>None\<close> and the empty string are false.\<close>

fun truthy :: "path option \<Rightarrow> bool" where
  "truthy None = False"
| "truthy (Some p) = (p \<noteq> [])"

text \<open>Lines 64 and 65: the logger that was passed, or the module's logger when none was.\<close>

definition chosen_logger :: "logger_ref option \<Rightarrow> logger_ref" where
  "chosen_logger lg = (case lg of None \<Rightarrow> getLogger dunder_name | Some given \<Rightarrow> given)"

text \<open>
  \<^verbatim>\<open>setup_logger\<close> (lines 45 to 70). The outcome comes with the object and the process
  state as the method leaves them.
\<close>

definition setup_logger ::
  "AsyncIO \<Rightarrow> logger_ref option \<Rightarrow> path option \<Rightarrow> world \<Rightarrow> pyval outcome \<times> AsyncIO \<times> world" where
  "setup_logger self lg logfile w =
     (let l = chosen_logger lg in
      case (case logfile of
              None \<Rightarrow> Inr w
            | Some p \<Rightarrow>
                if truthy logfile then
                  (case new_FileHandler p (fs w) of
                     (Inl e, fsys) \<Rightarrow> Inl (e, w\<lparr>fs := fsys\<rparr>)
                   | (Inr h, fsys) \<Rightarrow> Inr (addHandler l h (w\<lparr>fs := fsys\<rparr>)))
                else Inr w) of
        Inl (e, w1) \<Rightarrow> (Inl e, self, w1)
      | Inr w1 \<Rightarrow> (Inr PyNone, self\<lparr>logger := LoggerObj l\<rparr>, basicConfig NOTSET w1))"

text \<open>Lines 40 to 42 of \<^verbatim>\<open>__init__\<close>: \<^verbatim>\<open>super().__init__()\<close> without arguments, then the
  assignment of the \<^verbatim>\<open>typing\<close> expression to the \<^verbatim>\<open>logger\<close> attribute.\<close>

definition init_fields :: "world \<Rightarrow> AsyncIO outcome" where
  "init_fields w =
     (case ThreadPoolExecutor_init None w of
        Inl e \<Rightarrow> Inl e
      | Inr pool \<Rightarrow>
          Inr ((ThreadPoolExecutor.extend pool (AsyncIO.fields Unset))
                 \<lparr>logger := UnionNoneLogger\<rparr>))"

text \<open>\<^verbatim>\<open>__init__(self, logger=None, logfile=None, *args, **kwargs)\<close>.\<close>

definition AsyncIO_init ::
  "logger_ref option \<Rightarrow> path option \<Rightarrow> pyarg list \<Rightarrow> (string \<times> pyarg) list \<Rightarrow> world
     \<Rightarrow> AsyncIO outcome \<times> world" where
  "AsyncIO_init lg logfile args kwargs w =
     (case init_fields w of
        Inl e \<Rightarrow> (Inl e, w)
      | Inr self \<Rightarrow>
          (case setup_logger self lg logfile w of
             (Inl e, self', w') \<Rightarrow> (Inl e, w')
           | (Inr v, self', w') \<Rightarrow> (Inr self', w')))"

text \<open>\<^verbatim>\<open>queue_save_df\<close> (line 86): the future that \<^verbatim>\<open>submit\<close> returns is dropped.\<close>

definition queue_save_df :: "AsyncIO \<Rightarrow> dataframe \<Rightarrow> path \<Rightarrow> pyval outcome \<times> AsyncIO" where
  "queue_save_df self df_to_save file_path =
     (case submit self (Save_df df_to_save file_path) of
        (Inl e, self') \<Rightarrow> (Inl e, self')
      | (Inr fut, self') \<Rightarrow> (Inr PyNone, self'))"

text \<open>\<^verbatim>\<open>self.logger.info(msg, arg)\<close> and \<^verbatim>\<open>self.logger.error(msg, arg)\<close>. When the
  attribute holds a logger, the call returns \<^verbatim>\<open>None\<close>, and the entry is emitted if the
  logger is enabled for the level (\<^verbatim>\<open>if self.isEnabledFor(level)\<close> in the library). The
  \<^verbatim>\<open>typing\<close> expression has no such method, and an absent attribute cannot be read.\<close>

definition logger_call ::
  "logger_field \<Rightarrow> loglevel \<Rightarrow> string \<Rightarrow> path \<Rightarrow> world \<Rightarrow> pyval outcome \<times> world" where
  "logger_call lf lv template arg w =
     (case lf of
        LoggerObj l \<Rightarrow>
          if isEnabledFor w l lv
          then (Inr PyNone,
                w\<lparr>emitted := emitted w @
                    [\<lparr>le_logger = l, le_level = lv, le_template = template, le_arg = arg\<rparr>]\<rparr>)
          else (Inr PyNone, w)
      | _ \<Rightarrow> (Inl AttributeError, w))"

text \<open>\<^verbatim>\<open>_save_df\<close> (lines 102 to 107): \<^verbatim>\<open>try / except Exception / else\<close>.\<close>

definition save_df :: "AsyncIO \<Rightarrow> dataframe \<Rightarrow> path \<Rightarrow> world \<Rightarrow> pyval outcome \<times> world" where
  "save_df self df_to_save file_path w =
     (case to_excel df_to_save file_path (fs w) of
        (Inl e, fsys) \<Rightarrow>
          if is_Exception e
          then logger_call (logger self) ERROR ''Unable to save %s'' file_path (w\<lparr>fs := fsys\<rparr>)
          else (Inl e, w\<lparr>fs := fsys\<rparr>)
      | (Inr v, fsys) \<Rightarrow>
          logger_call (logger self) INFO ''Saved %s'' file_path (w\<lparr>fs := fsys\<rparr>))"

subsection \<open>Sample inputs\<close>

text \<open>A process that has not configured logging: the root logger is at \<open>WARNING\<close> and has
  no handlers, every other logger is at \<open>NOTSET\<close>. The directory \<open>/data\<close> exists.\<close>

definition fresh_loggers :: "logger_ref \<Rightarrow> logger_obj" where
  "fresh_loggers l =
     (case l of RootLogger \<Rightarrow> \<lparr>level = WARNING, handlers = []\<rparr>
              | NamedLogger n \<Rightarrow> \<lparr>level = NOTSET, handlers = []\<rparr>)"

definition fresh_world :: world where
  "fresh_world =
     \<lparr>fs = \<lparr>dirs = {''/data''}, locked = {}, files = {}, workbooks = Map.empty\<rparr>,
      cpu_count = Some 4, loggers = fresh_loggers, disabled = {}, manager_disable = 0,
      emitted = []\<rparr>"

text \<open>The same process after \<^verbatim>\<open>logging.basicConfig(level=logging.NOTSET)\<close>.\<close>

definition configured_world :: world where
  "configured_world = basicConfig NOTSET fresh_world"

text \<open>The configured process with the module's logger set to \<open>CRITICAL\<close>.\<close>

definition quiet_world :: world where
  "quiet_world =
     configured_world\<lparr>loggers :=
       (loggers configured_world)
         (NamedLogger dunder_name := \<lparr>level = CRITICAL, handlers = []\<rparr>)\<rparr>"

text \<open>A table of two rows and three columns.\<close>

definition sample_table :: table where
  "sample_table =
     \<lparr>columns = [''odor'', ''trial'', ''licks''],
      rows = [[Txt ''pentanol'', Num 1, Num 12], [Txt ''hexanal'', Num 2, Num 7]]\<rparr>"

text \<open>A constructed writer whose logger is the module's, one whose logger is the root
  logger, and one whose pool has been shut down.\<close>

definition sample_writer :: AsyncIO where
  "sample_writer =
     \<lparr>max_workers = 8, shutdown_flag = False, work_queue = [],
      logger = LoggerObj (NamedLogger dunder_name)\<rparr>"

definition root_writer :: AsyncIO where
  "root_writer = sample_writer\<lparr>logger := LoggerObj RootLogger\<rparr>"

definition closed_writer :: AsyncIO where
  "closed_writer = sample_writer\<lparr>shutdown_flag := True\<rparr>"

text \<open>The object as lines 40 to 42 leave it.\<close>

definition default_self :: "world \<Rightarrow> AsyncIO" where
  "default_self w =
     \<lparr>max_workers = min 32 ((case cpu_count w of None \<Rightarrow> 1 | Some n \<Rightarrow> n) + 4),
      shutdown_flag = False, work_queue = [], logger = UnionNoneLogger\<rparr>"

text \<open>Datasets whose \<^verbatim>\<open>to_excel\<close> raises a given exception without touching the file
  system.\<close>

definition raising_frame :: "exc \<Rightarrow> dataframe" where
  "raising_frame e = DataFrame (\<lambda>p fsys. (Inl e, fsys))"

section \<open>Properties\<close>

subsection \<open>Construction\<close>

lemma init_fields_eq: "init_fields w = Inr (default_self w)"
  by (simp add: init_fields_def ThreadPoolExecutor_init_def default_self_def
      ThreadPoolExecutor.extend_def AsyncIO.fields_def)

lemma setup_logger_no_logfile:
  "\<not> truthy logfile \<Longrightarrow>
   setup_logger self lg logfile w =
     (Inr PyNone, self\<lparr>logger := LoggerObj (chosen_logger lg)\<rparr>, basicConfig NOTSET w)"
  by (cases logfile) (simp_all add: setup_logger_def Let_def)

lemma setup_logger_opened:
  "p \<noteq> [] \<Longrightarrow> can_open (fs w) p \<Longrightarrow>
   setup_logger self lg (Some p) w =
     (Inr PyNone, self\<lparr>logger := LoggerObj (chosen_logger lg)\<rparr>,
      basicConfig NOTSET
        (addHandler (chosen_logger lg) (FileHandler p)
           (w\<lparr>fs := (fs w)\<lparr>files := insert p (files (fs w))\<rparr>\<rparr>)))"
  by (simp add: setup_logger_def new_FileHandler_def Let_def)

lemma setup_logger_not_opened:
  "p \<noteq> [] \<Longrightarrow> \<not> can_open (fs w) p \<Longrightarrow>
   setup_logger self lg (Some p) w = (Inl OSError, self, w)"
  by (simp add: setup_logger_def new_FileHandler_def Let_def)

lemma init_no_logfile:
  "\<not> truthy logfile \<Longrightarrow>
   AsyncIO_init lg logfile args kwargs w =
     (Inr ((default_self w)\<lparr>logger := LoggerObj (chosen_logger lg)\<rparr>), basicConfig NOTSET w)"
  by (simp add: AsyncIO_init_def init_fields_eq setup_logger_no_logfile)

lemma init_opened:
  "p \<noteq> [] \<Longrightarrow> can_open (fs w) p \<Longrightarrow>
   AsyncIO_init lg (Some p) args kwargs w =
     (Inr ((default_self w)\<lparr>logger := LoggerObj (chosen_logger lg)\<rparr>),
      basicConfig NOTSET
        (addHandler (chosen_logger lg) (FileHandler p)
           (w\<lparr>fs := (fs w)\<lparr>files := insert p (files (fs w))\<rparr>\<rparr>)))"
  by (simp add: AsyncIO_init_def init_fields_eq setup_logger_opened)

lemma init_not_opened:
  "p \<noteq> [] \<Longrightarrow> \<not> can_open (fs w) p \<Longrightarrow>
   AsyncIO_init lg (Some p) args kwargs w = (Inl OSError, w)"
  by (simp add: AsyncIO_init_def init_fields_eq setup_logger_not_opened)

text \<open>The ways in which \<^verbatim>\<open>__init__\<close> returns.\<close>

lemma init_cases:
  assumes "AsyncIO_init lg logfile args kwargs w = (Inr self, w')"
  obtains (plain) "\<not> truthy logfile"
      "self = (default_self w)\<lparr>logger := LoggerObj (chosen_logger lg)\<rparr>"
      "w' = basicConfig NOTSET w"
    | (logfile) p where "logfile = Some p" "p \<noteq> []" "can_open (fs w) p"
      "self = (default_self w)\<lparr>logger := LoggerObj (chosen_logger lg)\<rparr>"
      "w' = basicConfig NOTSET
              (addHandler (chosen_logger lg) (FileHandler p)
                 (w\<lparr>fs := (fs w)\<lparr>files := insert p (files (fs w))\<rparr>\<rparr>))"
proof (cases "truthy logfile")
  case False
  with assms plain show ?thesis by (simp add: init_no_logfile)
next
  case True
  then obtain p where p: "logfile = Some p" "p \<noteq> []" by (cases logfile) auto
  show ?thesis
  proof (cases "can_open (fs w) p")
    case True
    with assms p logfile show ?thesis by (simp add: init_opened)
  next
    case False
    with assms p show ?thesis by (simp add: init_not_opened)
  qed
qed

lemma handlers_basicConfig:
  "handlers (loggers (basicConfig lv w) l) =
     handlers (loggers w l) @
       (if l = RootLogger \<and> handlers (loggers w RootLogger) = [] then [StreamHandler] else [])"
  by (simp add: basicConfig_def)

lemma handlers_addHandler:
  "handlers (loggers (addHandler l h w) l') =
     handlers (loggers w l') @ (if l' = l then [h] else [])"
  by (simp add: addHandler_def)

lemma level_basicConfig:
  "level (loggers (basicConfig lv w) RootLogger) =
     (if handlers (loggers w RootLogger) = [] then lv else level (loggers w RootLogger))"
  by (simp add: basicConfig_def)

lemma level_addHandler: "level (loggers (addHandler l h w) l') = level (loggers w l')"
  by (simp add: addHandler_def)

text \<open>Facts about the sample process.\<close>

lemma default_self_fresh:
  "(default_self fresh_world)\<lparr>logger := LoggerObj (NamedLogger dunder_name)\<rparr> = sample_writer"
  by (simp add: default_self_def fresh_world_def sample_writer_def)

lemma can_open_data_log: "can_open (fs fresh_world) ''/data/run.log''"
  by (simp add: can_open_def parent_exists_def dirname_def fresh_world_def)

lemma can_open_run_log: "can_open (fs fresh_world) ''run.log''"
  by (simp add: can_open_def parent_exists_def dirname_def fresh_world_def)

lemma cannot_open_nowhere_log: "\<not> can_open (fs fresh_world) ''/nowhere/run.log''"
  by (simp add: can_open_def parent_exists_def dirname_def fresh_world_def)

lemma fresh_handlers: "handlers (loggers fresh_world l) = []"
  by (cases l) (simp_all add: fresh_world_def fresh_loggers_def)

lemma fresh_root_level: "level (loggers fresh_world RootLogger) = WARNING"
  by (simp add: fresh_world_def fresh_loggers_def)

lemma init_fresh_plain_fst:
  "fst (AsyncIO_init None None [] [] fresh_world) = Inr sample_writer"
  by (simp add: init_no_logfile chosen_logger_def getLogger_def default_self_fresh)

lemma init_fresh_plain:
  "AsyncIO_init None None [] [] fresh_world =
     (Inr sample_writer, snd (AsyncIO_init None None [] [] fresh_world))"
  by (simp add: prod_eq_iff init_fresh_plain_fst)

lemma init_fresh_logfile_fst:
  "fst (AsyncIO_init None (Some ''/data/run.log'') [] [] fresh_world) = Inr sample_writer"
  by (simp add: init_opened can_open_data_log chosen_logger_def getLogger_def default_self_fresh)

lemma init_fresh_logfile:
  "AsyncIO_init None (Some ''/data/run.log'') [] [] fresh_world =
     (Inr sample_writer, snd (AsyncIO_init None (Some ''/data/run.log'') [] [] fresh_world))"
  by (simp add: prod_eq_iff init_fresh_logfile_fst)

text \<open>
  C5. When no log file is given (\<^verbatim>\<open>if logfile:\<close> is false), \<^verbatim>\<open>__init__\<close> returns, for
  every logger argument, every extra argument and every process state. When a log file
  path is given, \<^verbatim>\<open>__init__\<close> raises if and only if the path cannot be opened for the
  file handler.
\<close>

theorem init_fails_iff_unopenable:
  "(\<not> truthy logfile \<longrightarrow> \<not> isl (fst (AsyncIO_init lg logfile args kwargs w)))
   \<and> (p \<noteq> [] \<longrightarrow>
        (isl (fst (AsyncIO_init lg (Some p) args kwargs w)) \<longleftrightarrow> \<not> can_open (fs w) p))"
proof (intro conjI impI)
  assume "\<not> truthy logfile"
  then show "\<not> isl (fst (AsyncIO_init lg logfile args kwargs w))"
    by (simp add: init_no_logfile)
next
  assume p: "p \<noteq> []"
  show "isl (fst (AsyncIO_init lg (Some p) args kwargs w)) \<longleftrightarrow> \<not> can_open (fs w) p"
  proof (cases "can_open (fs w) p")
    case True
    with p show ?thesis by (simp add: init_opened)
  next
    case False
    with p show ?thesis by (simp add: init_not_opened)
  qed
qed

theorem init_fails_iff_unopenable_witness:
  "\<not> truthy None
   \<and> \<not> isl (fst (AsyncIO_init None None [] [] fresh_world))
   \<and> \<not> can_open (fs fresh_world) ''/nowhere/run.log''
   \<and> isl (fst (AsyncIO_init None (Some ''/nowhere/run.log'') [] [] fresh_world))
   \<and> can_open (fs fresh_world) ''/data/run.log''
   \<and> \<not> isl (fst (AsyncIO_init None (Some ''/data/run.log'') [] [] fresh_world))"
  using init_fails_iff_unopenable [of None None "[]" "[]" fresh_world "''/nowhere/run.log''"]
    init_fails_iff_unopenable [of None None "[]" "[]" fresh_world "''/data/run.log''"]
    cannot_open_nowhere_log can_open_data_log
  by simp

text \<open>
  C6. When \<^verbatim>\<open>__init__\<close> returns, the \<^verbatim>\<open>logger\<close> attribute holds the chosen logger: the
  module's own logger when none was supplied, the supplied one otherwise. Every logger
  keeps the handlers it had, in order, at the front of its handler list. When a log file
  path was given, the handler list of the chosen logger is the old list followed by the
  file handler for that path.
\<close>

theorem init_logger_and_handlers:
  assumes "AsyncIO_init lg logfile args kwargs w = (Inr self, w')"
  shows "logger self = LoggerObj (chosen_logger lg)
       \<and> chosen_logger None = NamedLogger dunder_name
       \<and> (\<forall>given. chosen_logger (Some given) = given)
       \<and> (\<forall>l. prefix (handlers (loggers w l)) (handlers (loggers w' l)))
       \<and> (\<forall>p. logfile = Some p \<and> p \<noteq> [] \<longrightarrow>
             handlers (loggers w' (chosen_logger lg)) =
               handlers (loggers w (chosen_logger lg)) @ [FileHandler p])"
  using assms
proof (cases rule: init_cases)
  case plain
  then show ?thesis
    by (auto simp: handlers_basicConfig chosen_logger_def getLogger_def)
next
  case (logfile p)
  then show ?thesis
    by (auto simp: handlers_basicConfig handlers_addHandler chosen_logger_def getLogger_def)
qed

theorem init_logger_and_handlers_witness:
  "fst (AsyncIO_init None (Some ''/data/run.log'') [] [] fresh_world) = Inr sample_writer
   \<and> logger sample_writer = LoggerObj (NamedLogger dunder_name)
   \<and> handlers (loggers fresh_world (NamedLogger dunder_name)) = []
   \<and> handlers (loggers (snd (AsyncIO_init None (Some ''/data/run.log'') [] [] fresh_world))
        (NamedLogger dunder_name)) = [FileHandler ''/data/run.log'']"
  using init_logger_and_handlers [OF init_fresh_logfile] init_fresh_logfile_fst fresh_handlers
  by (simp add: chosen_logger_def getLogger_def)

text \<open>
  C7 fails on the code: \<^verbatim>\<open>__init__\<close> accepts \<^verbatim>\<open>*args\<close> and \<^verbatim>\<open>**kwargs\<close> and calls
  \<^verbatim>\<open>super().__init__()\<close> without them. Constructed with \<^verbatim>\<open>max_workers=2\<close> on a machine
  with 4 CPUs, the writer has the default 8 workers, where the pool's own constructor
  given \<^verbatim>\<open>max_workers=2\<close> has 2.
\<close>

theorem init_drops_max_workers:
  "map_sum id max_workers
      (fst (AsyncIO_init None None [] [(''max_workers'', IntArg 2)] fresh_world)) = Inr 8
   \<and> map_sum id max_workers (ThreadPoolExecutor_init (Some 2) fresh_world) = Inr 2"
  by (simp add: init_no_logfile default_self_def ThreadPoolExecutor_init_def fresh_world_def)

text \<open>The extra arguments of \<^verbatim>\<open>__init__\<close> have no effect at all.\<close>

lemma init_ignores_pool_arguments:
  "AsyncIO_init lg logfile args kwargs w = AsyncIO_init lg logfile [] [] w"
  by (simp add: AsyncIO_init_def)

text \<open>
  C8, with the condition under which \<^verbatim>\<open>logging.basicConfig\<close> acts. When
  \<^verbatim>\<open>__init__\<close> returns, the level of the root logger is \<open>NOTSET\<close>
  if the root logger had no handlers when \<^verbatim>\<open>logging.basicConfig\<close> was called, that is, if
  it had none before the construction and the construction did not attach the file handler
  to the root logger itself. Otherwise the level of the root logger is what it was.
\<close>

theorem init_root_level:
  assumes "AsyncIO_init lg logfile args kwargs w = (Inr self, w')"
  shows "level (loggers w' RootLogger) =
           (if handlers (loggers w RootLogger) = [] \<and> \<not> (lg = Some RootLogger \<and> truthy logfile)
            then NOTSET else level (loggers w RootLogger))"
  using assms
proof (cases rule: init_cases)
  case plain
  then show ?thesis by (simp add: level_basicConfig)
next
  case (logfile p)
  then show ?thesis
    by (cases lg)
       (auto simp: level_basicConfig level_addHandler handlers_addHandler
          chosen_logger_def getLogger_def)
qed

theorem init_root_level_witness:
  "fst (AsyncIO_init None None [] [] fresh_world) = Inr sample_writer
   \<and> handlers (loggers fresh_world RootLogger) = []
   \<and> level (loggers fresh_world RootLogger) = WARNING
   \<and> level (loggers (snd (AsyncIO_init None None [] [] fresh_world)) RootLogger) = NOTSET"
  using init_root_level [OF init_fresh_plain] init_fresh_plain_fst fresh_handlers
    fresh_root_level
  by simp

text \<open>
  C8, for every choice of logger and log file, does not hold: in a process that has not configured logging, constructing the writer
  with the root logger and a log file attaches the file handler to the root logger first,
  so \<^verbatim>\<open>logging.basicConfig\<close> does nothing and the root logger stays at \<open>WARNING\<close>.
\<close>

theorem init_root_logger_stays_WARNING:
  "\<not> isl (fst (AsyncIO_init (Some RootLogger) (Some ''run.log'') [] [] fresh_world))
   \<and> level (loggers (snd (AsyncIO_init (Some RootLogger) (Some ''run.log'') [] [] fresh_world))
        RootLogger) = WARNING"
  by (simp add: init_opened can_open_run_log level_basicConfig level_addHandler
      handlers_addHandler fresh_root_level chosen_logger_def)

text \<open>
  C9. Lines 40 to 42 leave the \<^verbatim>\<open>typing\<close> expression in the \<^verbatim>\<open>logger\<close> attribute. When
  \<^verbatim>\<open>setup_logger\<close> raises, the attribute is as it was; when it returns, the attribute holds
  the chosen logger. So whenever \<^verbatim>\<open>__init__\<close> returns, for every choice of its arguments,
  the attribute holds a logger.
\<close>

theorem logger_field_after_init:
  "(\<forall>s. init_fields w = Inr s \<longrightarrow> logger s = UnionNoneLogger)
   \<and> (\<forall>s e s' w'. setup_logger s lg logfile w = (Inl e, s', w') \<longrightarrow> logger s' = logger s)
   \<and> (\<forall>s v s' w'. setup_logger s lg logfile w = (Inr v, s', w') \<longrightarrow>
          logger s' = LoggerObj (chosen_logger lg))
   \<and> (\<forall>self w'. AsyncIO_init lg logfile args kwargs w = (Inr self, w') \<longrightarrow>
          (\<exists>l. logger self = LoggerObj l))"
proof (intro conjI allI impI)
  fix s assume "init_fields w = Inr s"
  then show "logger s = UnionNoneLogger"
    by (auto simp: init_fields_eq default_self_def)
next
  fix s e s' w' assume "setup_logger s lg logfile w = (Inl e, s', w')"
  then show "logger s' = logger s"
    by (auto simp: setup_logger_def Let_def split: option.splits if_splits prod.splits sum.splits)
next
  fix s v s' w' assume "setup_logger s lg logfile w = (Inr v, s', w')"
  then show "logger s' = LoggerObj (chosen_logger lg)"
    by (auto simp: setup_logger_def Let_def split: option.splits if_splits prod.splits sum.splits)
next
  fix self w' assume "AsyncIO_init lg logfile args kwargs w = (Inr self, w')"
  then show "\<exists>l. logger self = LoggerObj l"
    by (cases rule: init_cases) simp_all
qed

theorem logger_field_after_init_witness:
  "init_fields fresh_world = Inr (default_self fresh_world)
   \<and> logger (default_self fresh_world) = UnionNoneLogger
   \<and> setup_logger (default_self fresh_world) None (Some ''/nowhere/run.log'') fresh_world
       = (Inl OSError, default_self fresh_world, fresh_world)
   \<and> fst (AsyncIO_init None None [] [] fresh_world) = Inr sample_writer
   \<and> (\<exists>l. logger sample_writer = LoggerObj l)"
proof -
  have a: "init_fields fresh_world = Inr (default_self fresh_world)"
    by (rule init_fields_eq)
  have b: "setup_logger (default_self fresh_world) None (Some ''/nowhere/run.log'') fresh_world
             = (Inl OSError, default_self fresh_world, fresh_world)"
    by (simp add: setup_logger_not_opened cannot_open_nowhere_log)
  from logger_field_after_init [of fresh_world None None "[]" "[]"] a init_fresh_plain
  have "logger (default_self fresh_world) = UnionNoneLogger"
    and "\<exists>l. logger sample_writer = LoggerObj l"
    by blast+
  with a b init_fresh_plain_fst show ?thesis by simp
qed

subsection \<open>Logging levels\<close>

lemma isEnabledFor_fs [simp]: "isEnabledFor (w\<lparr>fs := fsys\<rparr>) l lv = isEnabledFor w l lv"
  by (simp add: isEnabledFor_def getEffectiveLevel_def)

lemma logger_call_LoggerObj:
  "logger_call (LoggerObj l) lv t a w =
     (Inr PyNone,
      w\<lparr>emitted := emitted w @
          (if isEnabledFor w l lv
           then [\<lparr>le_logger = l, le_level = lv, le_template = t, le_arg = a\<rparr>] else [])\<rparr>)"
  by (simp add: logger_call_def)

lemma fs_logger_call: "fs (snd (logger_call lf lv t a w)) = fs w"
  by (cases lf) (simp_all add: logger_call_def)

lemma getEffectiveLevel_all_NOTSET:
  assumes "\<And>a. level (loggers w a) = NOTSET"
  shows "getEffectiveLevel w l = NOTSET"
  using assms by (simp add: getEffectiveLevel_def)

lemma getEffectiveLevel_own:
  assumes "level (loggers w l) \<noteq> NOTSET"
  shows "getEffectiveLevel w l = level (loggers w l)"
  using assms by (cases l) (simp_all add: getEffectiveLevel_def)

lemma level_configured: "level (loggers configured_world a) = NOTSET"
  by (cases a) (simp_all add: configured_world_def basicConfig_def fresh_world_def
      fresh_loggers_def)

lemma nobody_disabled_configured:
  "disabled configured_world = {} \<and> manager_disable configured_world = 0"
  by (simp add: configured_world_def basicConfig_def fresh_world_def)

lemma enabled_configured:
  "isEnabledFor configured_world l lv \<longleftrightarrow> lv \<noteq> NOTSET"
proof -
  have "getEffectiveLevel configured_world l = NOTSET"
    by (rule getEffectiveLevel_all_NOTSET) (rule level_configured)
  then show ?thesis
    by (cases lv) (simp_all add: isEnabledFor_def nobody_disabled_configured)
qed

lemma not_enabled_quiet: "\<not> isEnabledFor quiet_world (NamedLogger dunder_name) ERROR"
proof -
  have "level (loggers quiet_world (NamedLogger dunder_name)) = CRITICAL"
    by (simp add: quiet_world_def)
  then have "getEffectiveLevel quiet_world (NamedLogger dunder_name) = CRITICAL"
    by (simp add: getEffectiveLevel_own)
  then show ?thesis by (simp add: isEnabledFor_def)
qed

subsection \<open>The worker\<close>

lemma to_excel_raising_frame: "to_excel (raising_frame e) p fsys = (Inl e, fsys)"
  by (simp add: raising_frame_def)

lemma fs_configured: "fs configured_world = fs fresh_world"
  by (simp add: configured_world_def basicConfig_def fresh_world_def)

lemma fs_quiet: "fs quiet_world = fs fresh_world"
  by (simp add: quiet_world_def fs_configured)

lemma emitted_configured: "emitted configured_world = []"
  by (simp add: configured_world_def basicConfig_def fresh_world_def)

lemma nowhere_has_no_parent: "\<not> parent_exists (fs fresh_world) ''/nowhere/a.xlsx''"
  by (simp add: parent_exists_def dirname_def fresh_world_def)

lemma can_open_data_xlsx: "can_open (fs fresh_world) ''/data/a.xlsx''"
  by (simp add: can_open_def parent_exists_def dirname_def fresh_world_def)

lemma sample_table_ok: "well_formed sample_table \<and> representable sample_table"
  by (simp add: well_formed_def representable_def sample_table_def)

lemma to_excel_pandas_written:
  assumes "representable t" and "can_open fsys p"
  shows "to_excel (pandas_DataFrame t) p fsys =
           (Inr PyNone,
            fsys\<lparr>files := insert p (files fsys),
                 workbooks := (workbooks fsys)(p \<mapsto> [render_sheet t])\<rparr>)"
  using assms by (simp add: pandas_DataFrame_def pandas_to_excel_def can_open_def)

lemma read_excel_render: "read_excel (render_sheet t) = t"
  by (simp add: read_excel_def render_sheet_def comp_def case_prod_beta map_snd_enumerate)

lemma index_column:
  "map hd (tl (render_sheet t)) = map (\<lambda>i. Num (int i)) [0..<length (rows t)]"
proof -
  have "map (\<lambda>i. Num (int i)) [0..<length (rows t)] =
          map (\<lambda>i. Num (int i)) (map fst (enumerate 0 (rows t)))"
    by (simp only: map_fst_enumerate add_0)
  also have "\<dots> = map (\<lambda>x. Num (int (fst x))) (enumerate 0 (rows t))"
    by (simp only: map_map comp_def)
  also have "\<dots> = map hd (tl (render_sheet t))"
    by (simp add: render_sheet_def comp_def case_prod_beta)
  finally show ?thesis by (rule sym)
qed

lemma root_writer_constructed:
  "fst (AsyncIO_init (Some RootLogger) (Some ''run.log'') [] [] fresh_world) = Inr root_writer"
proof -
  have "fst (AsyncIO_init (Some RootLogger) (Some ''run.log'') [] [] fresh_world) =
          Inr ((default_self fresh_world)\<lparr>logger := LoggerObj RootLogger\<rparr>)"
    by (simp add: init_opened can_open_run_log chosen_logger_def)
  moreover have "(default_self fresh_world)\<lparr>logger := LoggerObj RootLogger\<rparr> = root_writer"
    by (simp add: default_self_def fresh_world_def root_writer_def sample_writer_def)
  ultimately show ?thesis by simp
qed

lemma root_not_enabled_for_INFO:
  "\<not> isEnabledFor (snd (AsyncIO_init (Some RootLogger) (Some ''run.log'') [] [] fresh_world))
        RootLogger INFO"
proof -
  let ?w = "snd (AsyncIO_init (Some RootLogger) (Some ''run.log'') [] [] fresh_world)"
  have "level (loggers ?w RootLogger) = WARNING"
    by (simp add: init_opened can_open_run_log level_basicConfig level_addHandler
        handlers_addHandler fresh_root_level chosen_logger_def)
  then have "getEffectiveLevel ?w RootLogger = WARNING"
    by (simp add: getEffectiveLevel_own)
  then show ?thesis by (simp add: isEnabledFor_def)
qed

lemma root_world_fs:
  "can_open (fs (snd (AsyncIO_init (Some RootLogger) (Some ''run.log'') [] [] fresh_world)))
     ''/data/a.xlsx''
   \<and> emitted (snd (AsyncIO_init (Some RootLogger) (Some ''run.log'') [] [] fresh_world)) = []"
  by (simp add: init_opened can_open_run_log basicConfig_def addHandler_def can_open_def
      parent_exists_def dirname_def fresh_world_def)

text \<open>
  C1, for a write that returns or raises an instance of \<^verbatim>\<open>Exception\<close>. On a
  constructed writer (the \<^verbatim>\<open>logger\<close> attribute holds a logger), \<^verbatim>\<open>_save_df\<close> returns
  \<^verbatim>\<open>None\<close>, so nothing is raised out of the worker, and it makes exactly one call on the
  logger: at level \<open>INFO\<close> with the template \<open>Saved %s\<close> after a return, at level
  \<open>ERROR\<close> with the template \<open>Unable to save %s\<close> after a raise, with the destination
  path as argument. That call emits exactly one log message when the logger is enabled for
  the level, and none when it is not. Nothing else of the process state changes beyond
  what \<^verbatim>\<open>to_excel\<close> did to the file system.
\<close>

theorem save_df_logs_once:
  assumes "logger self = LoggerObj l"
    and "to_excel df file_path (fs w) = (r, fsys)"
    and "case r of Inl e \<Rightarrow> is_Exception e | Inr v \<Rightarrow> True"
  shows "save_df self df file_path w =
           (Inr PyNone,
            w\<lparr>fs := fsys,
              emitted := emitted w @
                (if isEnabledFor w l (case r of Inl e \<Rightarrow> ERROR | Inr v \<Rightarrow> INFO)
                 then [\<lparr>le_logger = l,
                        le_level = (case r of Inl e \<Rightarrow> ERROR | Inr v \<Rightarrow> INFO),
                        le_template =
                          (case r of Inl e \<Rightarrow> ''Unable to save %s'' | Inr v \<Rightarrow> ''Saved %s''),
                        le_arg = file_path\<rparr>]
                 else [])\<rparr>)"
  using assms by (cases r) (simp_all add: save_df_def logger_call_LoggerObj)

theorem save_df_logs_once_witness:
  "logger sample_writer = LoggerObj (NamedLogger dunder_name)
   \<and> to_excel (raising_frame ValueError) ''/data/a.xlsx'' (fs configured_world)
       = (Inl ValueError, fs configured_world)
   \<and> is_Exception ValueError
   \<and> isEnabledFor configured_world (NamedLogger dunder_name) ERROR
   \<and> save_df sample_writer (raising_frame ValueError) ''/data/a.xlsx'' configured_world =
       (Inr PyNone,
        configured_world\<lparr>emitted :=
          [\<lparr>le_logger = NamedLogger dunder_name, le_level = ERROR,
            le_template = ''Unable to save %s'', le_arg = ''/data/a.xlsx''\<rparr>]\<rparr>)
   \<and> isEnabledFor configured_world (NamedLogger dunder_name) INFO
   \<and> fst (save_df sample_writer (pandas_DataFrame sample_table) ''/data/a.xlsx''
             configured_world) = Inr PyNone
   \<and> emitted (snd (save_df sample_writer (pandas_DataFrame sample_table) ''/data/a.xlsx''
                     configured_world)) =
       [\<lparr>le_logger = NamedLogger dunder_name, le_level = INFO,
         le_template = ''Saved %s'', le_arg = ''/data/a.xlsx''\<rparr>]"
proof -
  have l: "logger sample_writer = LoggerObj (NamedLogger dunder_name)"
    by (simp add: sample_writer_def)
  have a: "to_excel (raising_frame ValueError) ''/data/a.xlsx'' (fs configured_world)
             = (Inl ValueError, fs configured_world)"
    by (rule to_excel_raising_frame)
  have a': "case (Inl ValueError :: pyval outcome) of Inl e \<Rightarrow> is_Exception e | Inr v \<Rightarrow> True"
    by simp
  have "can_open (fs configured_world) ''/data/a.xlsx''"
    by (simp add: fs_configured can_open_data_xlsx)
  then have b: "to_excel (pandas_DataFrame sample_table) ''/data/a.xlsx'' (fs configured_world)
             = (Inr PyNone,
                (fs configured_world)\<lparr>files := insert ''/data/a.xlsx'' (files (fs configured_world)),
                  workbooks := (workbooks (fs configured_world))
                    (''/data/a.xlsx'' \<mapsto> [render_sheet sample_table])\<rparr>)"
    by (simp add: to_excel_pandas_written sample_table_ok)
  have b': "case (Inr PyNone :: pyval outcome) of Inl e \<Rightarrow> is_Exception e | Inr v \<Rightarrow> True"
    by simp
  from save_df_logs_once [OF l a a'] save_df_logs_once [OF l b b'] l a
  show ?thesis by (simp add: enabled_configured emitted_configured)
qed

text \<open>
  C1, for every write and every logger, does not hold. When \<^verbatim>\<open>to_excel\<close> raises
  \<^verbatim>\<open>SystemExit\<close>, which is not an instance of \<^verbatim>\<open>Exception\<close>, the worker of a constructed
  writer emits nothing and the exception leaves \<^verbatim>\<open>_save_df\<close>. And a writer constructed
  with the root logger and a log file in a process that has not configured logging has its
  logger at \<open>WARNING\<close>: a write that succeeds emits nothing.
\<close>

theorem save_df_emits_nothing:
  "save_df sample_writer (raising_frame SystemExit) ''/data/a.xlsx'' configured_world
       = (Inl SystemExit, configured_world)
   \<and> emitted configured_world = []
   \<and> fst (AsyncIO_init (Some RootLogger) (Some ''run.log'') [] [] fresh_world) = Inr root_writer
   \<and> fst (save_df root_writer (pandas_DataFrame sample_table) ''/data/a.xlsx''
            (snd (AsyncIO_init (Some RootLogger) (Some ''run.log'') [] [] fresh_world)))
       = Inr PyNone
   \<and> ''/data/a.xlsx'' \<in> files (fs (snd (save_df root_writer (pandas_DataFrame sample_table)
            ''/data/a.xlsx''
            (snd (AsyncIO_init (Some RootLogger) (Some ''run.log'') [] [] fresh_world)))))
   \<and> emitted (snd (save_df root_writer (pandas_DataFrame sample_table) ''/data/a.xlsx''
            (snd (AsyncIO_init (Some RootLogger) (Some ''run.log'') [] [] fresh_world)))) = []"
proof -
  have a: "save_df sample_writer (raising_frame SystemExit) ''/data/a.xlsx'' configured_world
             = (Inl SystemExit, configured_world)"
    by (simp add: save_df_def to_excel_raising_frame)
  have b: "save_df root_writer (pandas_DataFrame sample_table) ''/data/a.xlsx''
             (snd (AsyncIO_init (Some RootLogger) (Some ''run.log'') [] [] fresh_world)) =
           (Inr PyNone,
            (snd (AsyncIO_init (Some RootLogger) (Some ''run.log'') [] [] fresh_world))
              \<lparr>fs := (fs (snd (AsyncIO_init (Some RootLogger) (Some ''run.log'') [] []
                              fresh_world)))
                \<lparr>files := insert ''/data/a.xlsx''
                   (files (fs (snd (AsyncIO_init (Some RootLogger) (Some ''run.log'') [] []
                                     fresh_world)))),
                 workbooks := (workbooks (fs (snd (AsyncIO_init (Some RootLogger)
                                     (Some ''run.log'') [] [] fresh_world))))
                   (''/data/a.xlsx'' \<mapsto> [render_sheet sample_table])\<rparr>\<rparr>)"
    using root_world_fs root_not_enabled_for_INFO
    by (simp add: save_df_def to_excel_pandas_written sample_table_ok logger_call_LoggerObj
        root_writer_def sample_writer_def)
  show ?thesis
    by (simp add: a b emitted_configured root_writer_constructed root_world_fs)
qed

text \<open>
  C2, for the serializer, the default layout and the reader as the spec describes them.
  For a dataset that is a table the format can represent and a destination that can be
  written, after \<^verbatim>\<open>_save_df\<close> the file exists at the path and holds one sheet, the
  table in the default layout: a header row, and a first column with the row numbers
  from 0. Read back, the sheet gives a table of the same shape as the dataset, with one
  cell for each column in every row.
\<close>

theorem save_df_round_trip_shape:
  assumes "well_formed t" and "representable t" and "can_open (fs w) file_path"
  shows "file_path \<in> files (fs (snd (save_df self (pandas_DataFrame t) file_path w)))
       \<and> workbooks (fs (snd (save_df self (pandas_DataFrame t) file_path w))) file_path
           = Some [render_sheet t]
       \<and> map hd (tl (render_sheet t)) = map (\<lambda>i. Num (int i)) [0..<length (rows t)]
       \<and> shape (read_excel (render_sheet t)) = shape t
       \<and> well_formed (read_excel (render_sheet t))"
proof -
  have "fs (snd (save_df self (pandas_DataFrame t) file_path w)) =
          (fs w)\<lparr>files := insert file_path (files (fs w)),
                 workbooks := (workbooks (fs w))(file_path \<mapsto> [render_sheet t])\<rparr>"
    using assms by (simp add: save_df_def to_excel_pandas_written fs_logger_call)
  with assms show ?thesis
    by (simp add: read_excel_render index_column)
qed

theorem save_df_round_trip_shape_witness:
  "well_formed sample_table \<and> representable sample_table
   \<and> can_open (fs configured_world) ''/data/a.xlsx''
   \<and> ''/data/a.xlsx'' \<in> files (fs (snd (save_df sample_writer (pandas_DataFrame sample_table)
                                          ''/data/a.xlsx'' configured_world)))
   \<and> workbooks (fs (snd (save_df sample_writer (pandas_DataFrame sample_table)
                           ''/data/a.xlsx'' configured_world))) ''/data/a.xlsx''
       = Some [[[Txt [], Txt ''odor'', Txt ''trial'', Txt ''licks''],
                [Num 0, Txt ''pentanol'', Num 1, Num 12],
                [Num 1, Txt ''hexanal'', Num 2, Num 7]]]
   \<and> shape (read_excel (render_sheet sample_table)) = (2, 3)"
proof -
  have c: "can_open (fs configured_world) ''/data/a.xlsx''"
    by (simp add: fs_configured can_open_data_xlsx)
  have r: "render_sheet sample_table =
             [[Txt [], Txt ''odor'', Txt ''trial'', Txt ''licks''],
              [Num 0, Txt ''pentanol'', Num 1, Num 12],
              [Num 1, Txt ''hexanal'', Num 2, Num 7]]"
    by (simp add: render_sheet_def sample_table_def enumerate_eq_zip upt_rec)
  have s: "shape sample_table = (2, 3)"
    by (simp add: shape_def sample_table_def)
  from save_df_round_trip_shape [OF conjunct1 [OF sample_table_ok]
      conjunct2 [OF sample_table_ok] c, of sample_writer]
  show ?thesis by (simp add: sample_table_ok c r s)
qed

text \<open>
  C4, for a logger that is enabled for \<open>ERROR\<close>, and with the serializer the spec
  describes. A destination whose parent directory does not exist makes the write fail:
  \<^verbatim>\<open>_save_df\<close> on a constructed writer returns \<^verbatim>\<open>None\<close>, the file system is as before (no
  file is created), and the one call on the logger, at level \<open>ERROR\<close> with the template
  \<open>Unable to save %s\<close> and the destination path as argument, emits exactly one entry
  when the logger is enabled for \<open>ERROR\<close> and none when it is not. Nothing else of the
  process state changes; the writer object, and with it the queue of the other requests,
  is not touched.
\<close>

theorem save_df_missing_parent:
  assumes "logger self = LoggerObj l"
    and "\<not> parent_exists (fs w) file_path"
  shows "save_df self (pandas_DataFrame t) file_path w =
           (Inr PyNone,
            w\<lparr>emitted := emitted w @
                (if isEnabledFor w l ERROR
                 then [\<lparr>le_logger = l, le_level = ERROR,
                        le_template = ''Unable to save %s'', le_arg = file_path\<rparr>]
                 else [])\<rparr>)
       \<and> fs (snd (save_df self (pandas_DataFrame t) file_path w)) = fs w"
  using assms
  by (simp add: save_df_def pandas_DataFrame_def pandas_to_excel_def logger_call_LoggerObj)

theorem save_df_missing_parent_witness:
  "logger sample_writer = LoggerObj (NamedLogger dunder_name)
   \<and> \<not> parent_exists (fs configured_world) ''/nowhere/a.xlsx''
   \<and> isEnabledFor configured_world (NamedLogger dunder_name) ERROR
   \<and> save_df sample_writer (pandas_DataFrame sample_table) ''/nowhere/a.xlsx''
         configured_world =
       (Inr PyNone,
        configured_world\<lparr>emitted :=
          [\<lparr>le_logger = NamedLogger dunder_name, le_level = ERROR,
            le_template = ''Unable to save %s'', le_arg = ''/nowhere/a.xlsx''\<rparr>]\<rparr>)
   \<and> files (fs (snd (save_df sample_writer (pandas_DataFrame sample_table)
                       ''/nowhere/a.xlsx'' configured_world))) = {}"
proof -
  have l: "logger sample_writer = LoggerObj (NamedLogger dunder_name)"
    by (simp add: sample_writer_def)
  have n: "\<not> parent_exists (fs configured_world) ''/nowhere/a.xlsx''"
    by (simp add: fs_configured nowhere_has_no_parent)
  have none: "files (fs fresh_world) = {}"
    by (simp add: fresh_world_def)
  from save_df_missing_parent [OF l n, of sample_table] l n none
  show ?thesis by (simp add: enabled_configured emitted_configured fs_configured)
qed

text \<open>
  C4, for every logger, does not hold: when the module's logger has been set to
  \<open>CRITICAL\<close>, the write to a destination whose parent directory does not exist fails and
  no entry is emitted.
\<close>

theorem save_df_missing_parent_quiet:
  "logger sample_writer = LoggerObj (NamedLogger dunder_name)
   \<and> level (loggers quiet_world (NamedLogger dunder_name)) = CRITICAL
   \<and> \<not> parent_exists (fs quiet_world) ''/nowhere/a.xlsx''
   \<and> save_df sample_writer (pandas_DataFrame sample_table) ''/nowhere/a.xlsx'' quiet_world
       = (Inr PyNone, quiet_world)
   \<and> emitted quiet_world = []"
proof -
  have n: "\<not> parent_exists (fs quiet_world) ''/nowhere/a.xlsx''"
    by (simp add: fs_quiet nowhere_has_no_parent)
  have e: "emitted quiet_world = []"
    by (simp add: quiet_world_def emitted_configured)
  have "save_df sample_writer (pandas_DataFrame sample_table) ''/nowhere/a.xlsx'' quiet_world
          = (Inr PyNone, quiet_world)"
    using n not_enabled_quiet
    by (simp add: save_df_def pandas_DataFrame_def pandas_to_excel_def logger_call_LoggerObj
        sample_writer_def)
  with n e show ?thesis by (simp add: sample_writer_def quiet_world_def)
qed

text \<open>
  C10. \<^verbatim>\<open>except Exception\<close> does not catch an exception that is not an instance of
  \<^verbatim>\<open>Exception\<close>: when \<^verbatim>\<open>to_excel\<close> raises one, \<^verbatim>\<open>_save_df\<close> makes no log call, neither
  with the error template nor with the info template, so no entry is emitted, and the
  exception leaves the function, whatever the \<^verbatim>\<open>logger\<close> attribute holds.
\<close>

theorem save_df_BaseException_escapes:
  assumes "to_excel df file_path (fs w) = (Inl e, fsys)"
    and "\<not> is_Exception e"
  shows "save_df self df file_path w = (Inl e, w\<lparr>fs := fsys\<rparr>)
       \<and> emitted (snd (save_df self df file_path w)) = emitted w"
  using assms by (simp add: save_df_def)

theorem save_df_BaseException_escapes_witness:
  "to_excel (raising_frame KeyboardInterrupt) ''/data/a.xlsx'' (fs fresh_world)
       = (Inl KeyboardInterrupt, fs fresh_world)
   \<and> \<not> is_Exception KeyboardInterrupt
   \<and> save_df sample_writer (raising_frame KeyboardInterrupt) ''/data/a.xlsx'' fresh_world
       = (Inl KeyboardInterrupt, fresh_world)
   \<and> emitted (snd (save_df sample_writer (raising_frame KeyboardInterrupt)
                     ''/data/a.xlsx'' fresh_world)) = []"
proof -
  have h: "to_excel (raising_frame KeyboardInterrupt) ''/data/a.xlsx'' (fs fresh_world)
             = (Inl KeyboardInterrupt, fs fresh_world)"
    by (rule to_excel_raising_frame)
  have n: "\<not> is_Exception KeyboardInterrupt" by simp
  from save_df_BaseException_escapes [OF h n, of sample_writer] h n
  show ?thesis by (simp add: fresh_world_def)
qed

subsection \<open>Queueing\<close>

text \<open>
  C3, for a pool that has not been shut down. \<^verbatim>\<open>queue_save_df\<close> appends the work item
  for \<^verbatim>\<open>_save_df\<close> to the queue of the pool and returns \<^verbatim>\<open>None\<close>, for every dataset and
  path; on a pool that has been shut down \<^verbatim>\<open>submit\<close> raises \<^verbatim>\<open>RuntimeError\<close> and nothing
  is queued. In no case is the future of the work item the value returned.
\<close>

theorem queue_save_df_returns_None:
  "queue_save_df self df file_path =
       (if shutdown_flag self then (Inl RuntimeError, self)
        else (Inr PyNone, self\<lparr>work_queue := work_queue self @ [Save_df df file_path]\<rparr>))
   \<and> (\<forall>n. fst (queue_save_df self df file_path) \<noteq> Inr (Future n))"
  by (simp add: queue_save_df_def submit_def)

theorem queue_save_df_returns_None_witness:
  "\<not> shutdown_flag sample_writer
   \<and> fst (submit sample_writer (Save_df (pandas_DataFrame sample_table) ''/data/a.xlsx''))
       = Inr (Future 0)
   \<and> queue_save_df sample_writer (pandas_DataFrame sample_table) ''/data/a.xlsx'' =
       (Inr PyNone,
        sample_writer\<lparr>work_queue :=
          [Save_df (pandas_DataFrame sample_table) ''/data/a.xlsx'']\<rparr>)"
  using queue_save_df_returns_None
    [of sample_writer "pandas_DataFrame sample_table" "''/data/a.xlsx''"]
  by (simp add: sample_writer_def submit_def)

text \<open>
  C3, for every state of the pool, does not hold: on a writer whose pool has been shut
  down, \<^verbatim>\<open>queue_save_df\<close> raises \<^verbatim>\<open>RuntimeError\<close> and the write is not submitted.
\<close>

theorem queue_save_df_after_shutdown:
  "shutdown_flag closed_writer
   \<and> queue_save_df closed_writer (pandas_DataFrame sample_table) ''/data/a.xlsx''
       = (Inl RuntimeError, closed_writer)
   \<and> work_queue closed_writer = []"
  by (simp add: queue_save_df_def submit_def closed_writer_def sample_writer_def)

end
